theory Spec2Isabelle
  imports Complex_Main
begin

section \<open>The theta-rule solver for u' = -a u of decay.py\<close>

text \<open>
  The development embeds \<^verbatim>\<open>solver\<close>, \<^verbatim>\<open>solver_with_logging\<close>,
  \<^verbatim>\<open>solver_with_doctest\<close>, \<^verbatim>\<open>u_exact\<close>, \<^verbatim>\<open>u_discrete_exact\<close> and
  \<^verbatim>\<open>experiment_print_error\<close> of \<^verbatim>\<open>src/decay.py\<close>.

  Numbers. A Python argument is an \<^verbatim>\<open>int\<close> or a \<^verbatim>\<open>float\<close>; the tag is kept, since
  the arithmetic operators promote by it. A float is idealised as a real number: every
  operation is exact, there is no rounding, overflow, infinity or NaN. All statements
  below are therefore statements in exact arithmetic.

  Errors. Every exception the code can raise is a value of \<open>error\<close>: a float division
  by zero, a negative array length, an index out of range.

  The operators are those of Python 3: \<^verbatim>\<open>/\<close> is true division and \<^verbatim>\<open>round\<close> returns an
  int, rounding a tie to the even neighbour.
\<close>

subsection \<open>Python numbers and the operators the code uses\<close>

datatype error = ZeroDivisionError | ValueError | IndexError | OverflowError | AllocationError

datatype pynum = PyInt int | PyFloat real

fun val :: "pynum \<Rightarrow> real" where
  "val (PyInt i) = of_int i"
| "val (PyFloat x) = x"

text \<open>\<^verbatim>\<open>float(x)\<close>\<close>

definition py_float :: "pynum \<Rightarrow> pynum" where
  "py_float x = PyFloat (val x)"

text \<open>\<^verbatim>\<open>x + y\<close>, \<^verbatim>\<open>x - y\<close>, \<^verbatim>\<open>x * y\<close>: two ints give an int, anything else a float.\<close>

fun py_add :: "pynum \<Rightarrow> pynum \<Rightarrow> pynum" where
  "py_add (PyInt i) (PyInt j) = PyInt (i + j)"
| "py_add x y = PyFloat (val x + val y)"

fun py_sub :: "pynum \<Rightarrow> pynum \<Rightarrow> pynum" where
  "py_sub (PyInt i) (PyInt j) = PyInt (i - j)"
| "py_sub x y = PyFloat (val x - val y)"

fun py_mul :: "pynum \<Rightarrow> pynum \<Rightarrow> pynum" where
  "py_mul (PyInt i) (PyInt j) = PyInt (i * j)"
| "py_mul x y = PyFloat (val x * val y)"

text \<open>\<^verbatim>\<open>x / y\<close>: true division, a float; a zero divisor raises.\<close>

definition py_truediv :: "pynum \<Rightarrow> pynum \<Rightarrow> error + pynum" where
  "py_truediv x y =
     (if val y = 0 then Inl ZeroDivisionError else Inr (PyFloat (val x / val y)))"

text \<open>\<^verbatim>\<open>x ** n\<close> for a float \<open>x\<close> and an int \<open>n\<close>; \<^verbatim>\<open>0.0 ** -1\<close> raises.\<close>

definition py_pow :: "real \<Rightarrow> int \<Rightarrow> error + real" where
  "py_pow x n =
     (if 0 \<le> n then Inr (x ^ nat n)
      else if x = 0 then Inl ZeroDivisionError
      else Inr (1 / x ^ nat (- n)))"

text \<open>\<^verbatim>\<open>round(x)\<close> of a float, one argument: the nearest int, a tie goes to the even one.\<close>

definition py_round :: "real \<Rightarrow> int" where
  "py_round x =
     (let f = \<lfloor>x\<rfloor>; r = x - of_int f
      in if r < 1 / 2 then f
         else if 1 / 2 < r then f + 1
         else if even f then f else f + 1)"

subsection \<open>The two numpy constructors\<close>

text \<open>\<^verbatim>\<open>np.zeros(n)\<close>: a negative length raises.\<close>

definition np_zeros :: "int \<Rightarrow> error + real list" where
  "np_zeros n = (if n < 0 then Inl ValueError else Inr (replicate (nat n) 0))"

text \<open>
  \<^verbatim>\<open>np.linspace(start, stop, num)\<close>, end point included: \<open>num\<close> samples
  \<open>start + k * step\<close> with \<open>step = (stop - start) / (num - 1)\<close>, the last one overwritten
  by \<open>stop\<close> when there are at least two. With one sample there is no step and the
  sample is \<open>start\<close>. (When the step is zero numpy computes \<open>k / (num - 1) * delta\<close>
  instead of \<open>k * step\<close>; both are zero then.)
\<close>

definition np_linspace :: "real \<Rightarrow> real \<Rightarrow> int \<Rightarrow> error + real list" where
  "np_linspace start stop num =
     (if num < 0 then Inl ValueError
      else
        (let dv = num - 1;
             delta = stop - start;
             y = map (\<lambda>k. (if 0 < dv then real k * (delta / of_int dv) else real k * delta) + start)
                   [0..<nat num]
         in Inr (if 1 < num then y[nat num - 1 := stop] else y)))"

subsection \<open>solver\<close>

text \<open>
  The right-hand side of the loop body,
  \<^verbatim>\<open>(1 - (1-theta)*a*dt) / (1 + theta*a*dt)\<close>, before it is multiplied by \<open>u[n]\<close>.
\<close>

definition solver_numerator :: "pynum \<Rightarrow> pynum \<Rightarrow> pynum \<Rightarrow> pynum" where
  "solver_numerator theta a dt =
     py_sub (PyInt 1) (py_mul (py_mul (py_sub (PyInt 1) theta) a) dt)"

definition solver_denominator :: "pynum \<Rightarrow> pynum \<Rightarrow> pynum \<Rightarrow> pynum" where
  "solver_denominator theta a dt = py_add (PyInt 1) (py_mul (py_mul theta a) dt)"

text \<open>
  One pass of the loop body: \<^verbatim>\<open>u[n+1] = ... * u[n]\<close>. The quotient is evaluated
  first, then \<open>u[n]\<close> is read, then \<open>u[n+1]\<close> is stored.
\<close>

definition solver_body :: "pynum \<Rightarrow> pynum \<Rightarrow> pynum \<Rightarrow> real list \<Rightarrow> nat \<Rightarrow> error + real list" where
  "solver_body theta a dt u n =
     (case py_truediv (solver_numerator theta a dt) (solver_denominator theta a dt) of
        Inl e \<Rightarrow> Inl e
      | Inr q \<Rightarrow>
          if Suc n < length u then Inr (u[Suc n := val q * u ! n]) else Inl IndexError)"

text \<open>\<^verbatim>\<open>for n in range(0, Nt)\<close>: the body over the indices in order, stopping at an error.\<close>

fun solver_loop :: "pynum \<Rightarrow> pynum \<Rightarrow> pynum \<Rightarrow> nat list \<Rightarrow> real list \<Rightarrow> error + real list" where
  "solver_loop theta a dt [] u = Inr u"
| "solver_loop theta a dt (n # ns) u =
     (case solver_body theta a dt u n of
        Inl e \<Rightarrow> Inl e
      | Inr u' \<Rightarrow> solver_loop theta a dt ns u')"

definition solver :: "pynum \<Rightarrow> pynum \<Rightarrow> pynum \<Rightarrow> pynum \<Rightarrow> pynum \<Rightarrow> error + real list \<times> real list" where
  "solver I a T dt theta =
     (let dt = py_float dt
      in case py_truediv T dt of
           Inl e \<Rightarrow> Inl e
         | Inr q \<Rightarrow>
             (let Nt = py_round (val q);
                  T = py_mul (PyInt Nt) dt
              in case np_zeros (Nt + 1) of
                   Inl e \<Rightarrow> Inl e
                 | Inr u \<Rightarrow>
                     (case np_linspace 0 (val T) (Nt + 1) of
                        Inl e \<Rightarrow> Inl e
                      | Inr t \<Rightarrow>
                          if u = [] then Inl IndexError
                          else
                            (case solver_loop theta a dt [0..<nat Nt] (u[0 := val I]) of
                               Inl e \<Rightarrow> Inl e
                             | Inr u \<Rightarrow> Inr (u, t)))))"

subsection \<open>solver_with_doctest\<close>

text \<open>
  The same text as \<^verbatim>\<open>solver\<close>, but for the denominator, written
  \<^verbatim>\<open>1 + theta*dt*a\<close>.
\<close>

definition doctest_denominator :: "pynum \<Rightarrow> pynum \<Rightarrow> pynum \<Rightarrow> pynum" where
  "doctest_denominator theta a dt = py_add (PyInt 1) (py_mul (py_mul theta dt) a)"




subsection \<open>solver_with_logging\<close>





subsection \<open>u_exact, u_discrete_exact and the error norm\<close>

text \<open>\<^verbatim>\<open>I*np.exp(-a*t)\<close> on a mesh \<open>t\<close>, element by element.\<close>

definition u_exact :: "real list \<Rightarrow> pynum \<Rightarrow> pynum \<Rightarrow> real list" where
  "u_exact t I a = map (\<lambda>tk. val I * exp (- val a * tk)) t"

definition u_discrete_exact :: "int \<Rightarrow> pynum \<Rightarrow> pynum \<Rightarrow> pynum \<Rightarrow> pynum \<Rightarrow> error + real" where
  "u_discrete_exact n I a theta dt =
     (let dt = py_float dt
      in case py_truediv (solver_numerator theta a dt) (doctest_denominator theta a dt) of
           Inl e \<Rightarrow> Inl e
         | Inr A \<Rightarrow>
             (case py_pow (val A) n of
                Inl e \<Rightarrow> Inl e
              | Inr p \<Rightarrow> Inr (val I * p)))"

text \<open>
  \<^verbatim>\<open>experiment_print_error\<close> prints \<open>E\<close> and returns nothing; the model returns the
  number it prints.
\<close>

definition experiment_print_error :: "error + real" where
  "experiment_print_error =
     (let I = PyInt 1; a = PyInt 2; T = PyInt 4; dt = PyFloat (2 / 5); theta = PyInt 1
      in case solver I a T dt theta of
           Inl e \<Rightarrow> Inl e
         | Inr (u, t) \<Rightarrow>
             (let error = map2 (\<lambda>x y. x - y) (u_exact t I a) u
              in Inr (sqrt (val dt * sum_list (map (\<lambda>e. e ^ 2) error)))))"

subsection \<open>The quantities the specification names\<close>

text \<open>
  The update factor \<open>A = (1 - (1 - theta) a dt) / (1 + theta a dt)\<close> of the
  specification, on real numbers, and the number of intervals \<open>Nt = round(T/dt)\<close>.
\<close>

definition amplification :: "real \<Rightarrow> real \<Rightarrow> real \<Rightarrow> real" where
  "amplification theta a dt = (1 - (1 - theta) * a * dt) / (1 + theta * a * dt)"

definition intervals :: "pynum \<Rightarrow> pynum \<Rightarrow> int" where
  "intervals T dt = py_round (val T / val dt)"

text \<open>Sign alternation and strict growth in absolute value of consecutive elements.\<close>

fun alternates_sign :: "real list \<Rightarrow> bool" where
  "alternates_sign (x # y # zs) = (x * y < 0 \<and> alternates_sign (y # zs))"
| "alternates_sign zs = True"

fun abs_increasing :: "real list \<Rightarrow> bool" where
  "abs_increasing (x # y # zs) = (\<bar>x\<bar> < \<bar>y\<bar> \<and> abs_increasing (y # zs))"
| "abs_increasing zs = True"

section \<open>Properties of the operators and of the loop\<close>

lemma val_py_add [simp]: "val (py_add x y) = val x + val y"
  by (cases x; cases y) simp_all

lemma val_py_sub [simp]: "val (py_sub x y) = val x - val y"
  by (cases x; cases y) simp_all

lemma val_py_mul [simp]: "val (py_mul x y) = val x * val y"
  by (cases x; cases y) simp_all

lemma val_py_float [simp]: "val (py_float x) = val x"
  by (simp add: py_float_def)

lemma val_solver_numerator: "val (solver_numerator theta a dt) = 1 - (1 - val theta) * val a * val dt"
  by (simp add: solver_numerator_def)

lemma val_solver_denominator: "val (solver_denominator theta a dt) = 1 + val theta * val a * val dt"
  by (simp add: solver_denominator_def)

lemma val_doctest_denominator: "val (doctest_denominator theta a dt) = 1 + val theta * val a * val dt"
  by (simp add: doctest_denominator_def)

lemma solver_quotient:
  "py_truediv (solver_numerator theta a dt) (solver_denominator theta a dt) =
     (if 1 + val theta * val a * val dt = 0 then Inl ZeroDivisionError
      else Inr (PyFloat (amplification (val theta) (val a) (val dt))))"
  by (simp add: py_truediv_def val_solver_numerator val_solver_denominator amplification_def)

lemma doctest_quotient:
  "py_truediv (solver_numerator theta a dt) (doctest_denominator theta a dt) =
   py_truediv (solver_numerator theta a dt) (solver_denominator theta a dt)"
  by (simp add: py_truediv_def val_solver_denominator val_doctest_denominator)

lemma solver_body_eq:
  "solver_body theta a dt u n =
     (if 1 + val theta * val a * val dt = 0 then Inl ZeroDivisionError
      else if Suc n < length u
        then Inr (u[Suc n := amplification (val theta) (val a) (val dt) * u ! n])
        else Inl IndexError)"
  by (simp add: solver_body_def solver_quotient)





lemma solver_loop_append:
  "solver_loop theta a dt (xs @ ys) u =
     (case solver_loop theta a dt xs u of
        Inl e \<Rightarrow> Inl e
      | Inr u' \<Rightarrow> solver_loop theta a dt ys u')"
  by (induction xs arbitrary: u) (simp_all split: sum.splits)

lemma solver_loop_zero_denominator:
  "1 + val theta * val a * val dt = 0 \<Longrightarrow> ns \<noteq> [] \<Longrightarrow>
   solver_loop theta a dt ns u = Inl ZeroDivisionError"
  by (cases ns) (simp_all add: solver_body_eq)

lemma solver_loop_upt:
  assumes den: "1 + val theta * val a * val dt \<noteq> 0"
  shows "k < length u \<Longrightarrow>
    solver_loop theta a dt [0..<k] u =
      Inr (map (\<lambda>n. if n \<le> k then u ! 0 * amplification (val theta) (val a) (val dt) ^ n else u ! n)
             [0..<length u])"
proof (induction k)
  case 0
  have "map (\<lambda>n. if n \<le> 0 then u ! 0 * amplification (val theta) (val a) (val dt) ^ n else u ! n)
          [0..<length u] = u"
  proof (rule nth_equalityI)
    show "length (map (\<lambda>n. if n \<le> 0 then u ! 0 * amplification (val theta) (val a) (val dt) ^ n else u ! n)
          [0..<length u]) = length u" by simp
  next
    fix i
    assume "i < length (map (\<lambda>n. if n \<le> 0 then u ! 0 * amplification (val theta) (val a) (val dt) ^ n else u ! n)
          [0..<length u])"
    then have "i < length u" by simp
    then show "map (\<lambda>n. if n \<le> 0 then u ! 0 * amplification (val theta) (val a) (val dt) ^ n else u ! n)
          [0..<length u] ! i = u ! i"
      by (cases i) simp_all
  qed
  then show ?case by simp
next
  case (Suc k)
  define A where "A = amplification (val theta) (val a) (val dt)"
  define v where "v = map (\<lambda>n. if n \<le> k then u ! 0 * A ^ n else u ! n) [0..<length u]"
  have len: "length v = length u" by (simp add: v_def)
  from Suc have ih: "solver_loop theta a dt [0..<k] u = Inr v" by (simp add: v_def A_def)
  have vk: "v ! k = u ! 0 * A ^ k"
    using Suc.prems by (simp add: v_def)
  have step: "solver_body theta a dt v k = Inr (v[Suc k := A * v ! k])"
    using den Suc.prems len by (simp add: solver_body_eq A_def)
  have "v[Suc k := A * v ! k] =
      map (\<lambda>n. if n \<le> Suc k then u ! 0 * A ^ n else u ! n) [0..<length u]"
  proof (rule nth_equalityI)
    show "length (v[Suc k := A * v ! k]) =
       length (map (\<lambda>n. if n \<le> Suc k then u ! 0 * A ^ n else u ! n) [0..<length u])"
      by (simp add: len)
  next
    fix i
    assume "i < length (v[Suc k := A * v ! k])"
    then have i: "i < length u" by (simp add: len)
    show "v[Suc k := A * v ! k] ! i =
       map (\<lambda>n. if n \<le> Suc k then u ! 0 * A ^ n else u ! n) [0..<length u] ! i"
    proof (cases "i = Suc k")
      case True
      with i len vk show ?thesis by simp
    next
      case False
      with i len show ?thesis by (simp add: v_def le_Suc_eq)
    qed
  qed
  with ih step show ?case
    by (simp add: solver_loop_append A_def)
qed

lemma np_linspace_mesh:
  assumes "0 \<le> N"
  shows "np_linspace 0 (of_int N * d) (N + 1) = Inr (map (\<lambda>k. real k * d) [0..<nat (N + 1)])"
proof (cases "N = 0")
  case True
  then show ?thesis by (simp add: np_linspace_def)
next
  case False
  with assms have pos: "0 < N" by simp
  then have "(if 1 < N + 1
       then (map (\<lambda>k. real k * (of_int N * d / of_int N) + 0) [0..<nat (N + 1)])[nat (N + 1) - 1 := of_int N * d]
       else map (\<lambda>k. real k * (of_int N * d / of_int N) + 0) [0..<nat (N + 1)])
     = map (\<lambda>k. real k * d) [0..<nat (N + 1)]"
    by (auto intro!: nth_equalityI simp: nth_list_update)
  with pos show ?thesis
    by (simp add: np_linspace_def Let_def)
qed


lemma solver_zero_dt: "val dt = 0 \<Longrightarrow> solver I a T dt theta = Inl ZeroDivisionError"
  by (simp add: solver_def py_truediv_def)

lemma solver_loop_initial:
  assumes N: "0 \<le> N"
    and ok: "N = 0 \<or> 1 + val theta * val a * val dt \<noteq> 0"
  shows "solver_loop theta a dt [0..<nat N] ((replicate (nat (N + 1)) 0)[0 := x]) =
     Inr (map (\<lambda>n. x * amplification (val theta) (val a) (val dt) ^ n) [0..<nat (N + 1)])"
proof (cases "N = 0")
  case True
  then show ?thesis by simp
next
  case False
  with ok have den: "1 + val theta * val a * val dt \<noteq> 0" by simp
  define u where "u = (replicate (nat (N + 1)) (0::real))[0 := x]"
  have len: "length u = nat (N + 1)" by (simp add: u_def)
  have u0: "u ! 0 = x" using N by (simp add: u_def)
  have lt: "nat N < length u" using N by (simp add: len)
  have "map (\<lambda>n. if n \<le> nat N then u ! 0 * amplification (val theta) (val a) (val dt) ^ n else u ! n)
          [0..<length u] =
        map (\<lambda>n. x * amplification (val theta) (val a) (val dt) ^ n) [0..<nat (N + 1)]"
    using N by (simp add: len u0 nat_add_distrib)
  with solver_loop_upt [OF den lt] show ?thesis by (simp add: u_def)
qed

lemma solver_eq:
  assumes dt: "val dt \<noteq> 0"
  shows "solver I a T dt theta =
    (if intervals T dt + 1 < 0 then Inl ValueError
     else if intervals T dt + 1 = 0 then Inl IndexError
     else if 1 \<le> intervals T dt \<and> 1 + val theta * val a * val dt = 0 then Inl ZeroDivisionError
     else Inr (map (\<lambda>n. val I * amplification (val theta) (val a) (val dt) ^ n)
                 [0..<nat (intervals T dt + 1)],
               map (\<lambda>k. real k * val dt) [0..<nat (intervals T dt + 1)]))"
proof -
  define N where "N = intervals T dt"
  have q: "py_truediv T (py_float dt) = Inr (PyFloat (val T / val dt))"
    using dt by (simp add: py_truediv_def)
  have r: "py_round (val T / val dt) = N"
    by (simp add: N_def intervals_def)
  consider (neg) "N + 1 < 0" | (empty) "N + 1 = 0" | (zero) "1 \<le> N" "1 + val theta * val a * val dt = 0"
    | (ok) "0 \<le> N" "N = 0 \<or> 1 + val theta * val a * val dt \<noteq> 0"
    by linarith
  then have "solver I a T dt theta =
    (if N + 1 < 0 then Inl ValueError
     else if N + 1 = 0 then Inl IndexError
     else if 1 \<le> N \<and> 1 + val theta * val a * val dt = 0 then Inl ZeroDivisionError
     else Inr (map (\<lambda>n. val I * amplification (val theta) (val a) (val dt) ^ n) [0..<nat (N + 1)],
               map (\<lambda>k. real k * val dt) [0..<nat (N + 1)]))"
  proof cases
    case neg
    then show ?thesis
      by (simp add: solver_def q r np_zeros_def)
  next
    case empty
    then show ?thesis
      by (simp add: solver_def q r np_zeros_def np_linspace_def)
  next
    case zero
    then have ne: "[0..<nat N] \<noteq> []" by simp
    have z: "1 + val theta * val a * val (py_float dt) = 0" using zero by simp
    from zero have N0: "0 \<le> N" by simp
    show ?thesis
      using zero N0
      by (simp add: solver_def q r np_zeros_def np_linspace_mesh
          solver_loop_zero_denominator [OF z ne])
  next
    case ok
    have ok': "N = 0 \<or> 1 + val theta * val a * val (py_float dt) \<noteq> 0" using ok by simp
    have "\<not> (1 \<le> N \<and> 1 + val theta * val a * val dt = 0)" using ok by auto
    then show ?thesis
      using ok(1) solver_loop_initial [OF ok(1) ok', of "val I"]
      by (simp add: solver_def q r np_zeros_def np_linspace_mesh)
  qed
  then show ?thesis by (simp add: N_def)
qed



subsection \<open>Rounding, and what solver returns\<close>






lemma u_discrete_exact_eq:
  "u_discrete_exact n I a theta dt =
     (if 1 + val theta * val a * val dt = 0 then Inl ZeroDivisionError
      else if 0 \<le> n then Inr (val I * amplification (val theta) (val a) (val dt) ^ nat n)
      else if amplification (val theta) (val a) (val dt) = 0 then Inl ZeroDivisionError
      else Inr (val I * (1 / amplification (val theta) (val a) (val dt) ^ nat (- n))))"
  by (simp add: u_discrete_exact_def doctest_quotient solver_quotient py_pow_def)

subsection \<open>The error norm as a sum over the mesh\<close>

lemma sum_list_square_differences:
  assumes "length xs = length ys"
  shows "sum_list (map (\<lambda>e. e ^ 2) (map2 (\<lambda>x y. x - y) xs ys)) =
     (\<Sum>k<length xs. (xs ! k - ys ! k :: real) ^ 2)"
proof -
  have "sum_list (map (\<lambda>e. e ^ 2) (map2 (\<lambda>x y. x - y) xs ys)) =
      (\<Sum>k = 0..<length xs. map (\<lambda>e. e ^ 2) (map2 (\<lambda>x y. x - y) xs ys) ! k)"
    using assms by (simp add: sum_list_sum_nth)
  also have "\<dots> = (\<Sum>k = 0..<length xs. (xs ! k - ys ! k) ^ 2)"
    using assms by (intro sum.cong) simp_all
  finally show ?thesis by (simp add: atLeast0LessThan)
qed

lemma exp_minus_four_fifths: "exp (- (4 / 5)) < (5 / 9 :: real)"
proof -
  have "1 + 2 / 5 \<le> exp (2 / 5 :: real)" by (rule exp_ge_add_one_self)
  then have "(7 / 5) ^ 2 \<le> exp (2 / 5 :: real) ^ 2"
    by (intro power_mono) simp_all
  moreover have "exp (2 / 5 :: real) ^ 2 = exp (4 / 5)"
    by (simp add: exp_double [symmetric])
  ultimately have "(49 / 25 :: real) \<le> exp (4 / 5)" by (simp add: power2_eq_square)
  then have "(9 / 5 :: real) < exp (4 / 5)" by simp
  then have "1 / exp (4 / 5 :: real) < 1 / (9 / 5)"
    by (intro divide_strict_left_mono) simp_all
  then show ?thesis by (simp add: exp_minus inverse_eq_divide)
qed

subsection \<open>The log only grows\<close>




section \<open>The claims\<close>







text \<open>
  Claim C3 (the doctest scenario). With \<open>I = 0.8\<close>, \<open>a = 1.2\<close>, \<open>T = 1.5\<close>,
  \<open>dt = 0.5\<close>, \<open>theta = 0.5\<close> solver returns the mesh \<open>[0.0, 0.5, 1.0, 1.5]\<close> and the
  solution \<open>[4/5, 28/65, 196/845, 1372/10985]\<close>, each element within \<open>10^-12\<close> of the
  printed decimals \<open>0.8, 0.43076923076923, 0.23195266272189, 0.12489758761948\<close>.
\<close>

theorem solver_doctest_values:
  "\<exists>u t. solver (PyFloat 0.8) (PyFloat 1.2) (PyFloat 1.5) (PyFloat 0.5) (PyFloat 0.5) = Inr (u, t) \<and>
     u = [4 / 5, 28 / 65, 196 / 845, 1372 / 10985] \<and>
     t = [0.0, 0.5, 1.0, 1.5] \<and>
     \<bar>u ! 0 - 0.8\<bar> \<le> 1 / 10 ^ 12 \<and>
     \<bar>u ! 1 - 0.43076923076923\<bar> \<le> 1 / 10 ^ 12 \<and>
     \<bar>u ! 2 - 0.23195266272189\<bar> \<le> 1 / 10 ^ 12 \<and>
     \<bar>u ! 3 - 0.12489758761948\<bar> \<le> 1 / 10 ^ 12"
proof -
  have i: "intervals (PyFloat (3 / 2)) (PyFloat (1 / 2)) = 3"
    by (simp add: intervals_def py_round_def)
  have A: "amplification (1 / 2) (6 / 5) (1 / 2) = 7 / 13"
    by (simp add: amplification_def)
  have "solver (PyFloat 0.8) (PyFloat 1.2) (PyFloat 1.5) (PyFloat 0.5) (PyFloat 0.5) =
      Inr ([4 / 5, 28 / 65, 196 / 845, 1372 / 10985], [0.0, 0.5, 1.0, 1.5])"
    by (simp add: solver_eq i A upt_rec numeral_eq_Suc)
  then show ?thesis by simp
qed



text \<open>
  Claim C5 (instability scenario). With \<open>I = 1\<close>, \<open>a = 2\<close>, \<open>T = 4\<close>, \<open>dt = 1.2\<close>,
  \<open>theta = 0\<close> (Forward Euler, \<open>a dt = 2.4 > 2\<close>) no error is raised: solver returns
  the full sequence of \<open>Nt + 1 = 4\<close> elements \<open>[1, -1.4, 1.96, -2.744]\<close>, whose consecutive
  elements alternate in sign and grow strictly in absolute value.
\<close>

theorem solver_forward_euler_unstable:
  "\<exists>u t. solver (PyInt 1) (PyInt 2) (PyInt 4) (PyFloat 1.2) (PyInt 0) = Inr (u, t) \<and>
     intervals (PyInt 4) (PyFloat 1.2) = 3 \<and>
     length u = 4 \<and> length t = 4 \<and>
     u = [1, - 1.4, 1.96, - 2.744] \<and>
     alternates_sign u \<and> abs_increasing u"
proof -
  have i: "intervals (PyInt 4) (PyFloat (6 / 5)) = 3"
    by (simp add: intervals_def py_round_def)
  have A: "amplification 0 2 (6 / 5) = - 7 / 5"
    by (simp add: amplification_def)
  have "solver (PyInt 1) (PyInt 2) (PyInt 4) (PyFloat (6 / 5)) (PyInt 0) =
      Inr ([1, - 7 / 5, 49 / 25, - 343 / 125], [0, 6 / 5, 12 / 5, 18 / 5])"
    by (simp add: solver_eq i A upt_rec numeral_eq_Suc)
  then show ?thesis by (simp add: i)
qed

text \<open>
  Claim C6 (floating-point division). For \<open>I = 1\<close>, \<open>a = 1\<close>, \<open>T = 8\<close>, \<open>dt = 2\<close>,
  \<open>theta = 1\<close>, whether each is passed as an int or as a float, the number of
  intervals is \<open>round(8/2) = 4\<close>: solver returns five mesh points and the five values
  \<open>1, 1/3, 1/9, 1/27, 1/81\<close>, which are the values of \<^verbatim>\<open>u_discrete_exact\<close> at
  \<open>n = 0, ..., 4\<close>. The quotient \<open>T/dt\<close> is a true division, its divisor being
  \<^verbatim>\<open>float(dt)\<close>; nothing is truncated.
\<close>

theorem solver_integer_inputs:
  assumes "val I = 1" "val a = 1" "val T = 8" "val dt = 2" "val theta = 1"
  shows "py_truediv T (py_float dt) = Inr (PyFloat 4) \<and>
     intervals T dt = 4 \<and>
     solver I a T dt theta = Inr ([1, 1 / 3, 1 / 9, 1 / 27, 1 / 81], [0, 2, 4, 6, 8]) \<and>
     u_discrete_exact 0 I a theta dt = Inr 1 \<and>
     u_discrete_exact 1 I a theta dt = Inr (1 / 3) \<and>
     u_discrete_exact 2 I a theta dt = Inr (1 / 9) \<and>
     u_discrete_exact 3 I a theta dt = Inr (1 / 27) \<and>
     u_discrete_exact 4 I a theta dt = Inr (1 / 81)"
proof -
  have q: "py_truediv T (py_float dt) = Inr (PyFloat 4)"
    using assms by (simp add: py_truediv_def)
  have i: "intervals T dt = 4"
    using assms by (simp add: intervals_def py_round_def)
  have A: "amplification 1 1 2 = 1 / 3"
    by (simp add: amplification_def)
  have nz: "val dt \<noteq> 0" using assms by simp
  have s: "solver I a T dt theta = Inr ([1, 1 / 3, 1 / 9, 1 / 27, 1 / 81], [0, 2, 4, 6, 8])"
    using assms by (simp add: solver_eq [OF nz] i A upt_rec numeral_eq_Suc)
  have d: "u_discrete_exact 0 I a theta dt = Inr 1"
    "u_discrete_exact 1 I a theta dt = Inr (1 / 3)"
    "u_discrete_exact 2 I a theta dt = Inr (1 / 9)"
    "u_discrete_exact 3 I a theta dt = Inr (1 / 27)"
    "u_discrete_exact 4 I a theta dt = Inr (1 / 81)"
    using assms by (simp_all add: u_discrete_exact_eq A power_divide)
  from q i s d show ?thesis by simp
qed

theorem solver_integer_inputs_witness:
  "val (PyInt 1) = 1 \<and> val (PyInt 8) = 8 \<and> val (PyInt 2) = 2 \<and>
   py_truediv (PyInt 8) (py_float (PyInt 2)) = Inr (PyFloat 4) \<and>
   intervals (PyInt 8) (PyInt 2) = 4 \<and>
   solver (PyInt 1) (PyInt 1) (PyInt 8) (PyInt 2) (PyInt 1) =
     Inr ([1, 1 / 3, 1 / 9, 1 / 27, 1 / 81], [0, 2, 4, 6, 8]) \<and>
   u_discrete_exact 0 (PyInt 1) (PyInt 1) (PyInt 1) (PyInt 2) = Inr 1 \<and>
   u_discrete_exact 1 (PyInt 1) (PyInt 1) (PyInt 1) (PyInt 2) = Inr (1 / 3) \<and>
   u_discrete_exact 2 (PyInt 1) (PyInt 1) (PyInt 1) (PyInt 2) = Inr (1 / 9) \<and>
   u_discrete_exact 3 (PyInt 1) (PyInt 1) (PyInt 1) (PyInt 2) = Inr (1 / 27) \<and>
   u_discrete_exact 4 (PyInt 1) (PyInt 1) (PyInt 1) (PyInt 2) = Inr (1 / 81) \<and>
   solver (PyFloat 1) (PyFloat 1) (PyFloat 8) (PyFloat 2) (PyFloat 1) =
     solver (PyInt 1) (PyInt 1) (PyInt 8) (PyInt 2) (PyInt 1)"
proof -
  have h1: "val (PyInt 1) = 1" and h8: "val (PyInt 8) = 8" and h2: "val (PyInt 2) = 2"
    by simp_all
  have f1: "val (PyFloat 1) = 1" and f8: "val (PyFloat 8) = 8" and f2: "val (PyFloat 2) = 2"
    by simp_all
  from solver_integer_inputs [OF h1 h1 h8 h2 h1] solver_integer_inputs [OF f1 f1 f8 f2 f1] h1 h8 h2
  show ?thesis by simp
qed

text \<open>
  Claim C7 (error norm). For \<open>I = 1\<close>, \<open>a = 2\<close>, \<open>T = 4\<close>, \<open>dt = 0.4\<close>, \<open>theta = 1\<close>
  the number \<^verbatim>\<open>experiment_print_error\<close> computes from the output \<open>(u, t)\<close> of solver
  is \<open>E = sqrt(dt * (\<Sum>k = 0..Nt. (u_exact(t_k) - u_k)^2))\<close> with \<open>Nt = 10\<close>: all
  \<open>Nt + 1\<close> points, each with weight \<open>dt\<close>. \<open>E\<close> is a real number and strictly positive.
\<close>

theorem experiment_error_norm:
  "\<exists>u t E. solver (PyInt 1) (PyInt 2) (PyInt 4) (PyFloat 0.4) (PyInt 1) = Inr (u, t) \<and>
     intervals (PyInt 4) (PyFloat 0.4) = 10 \<and> length u = 11 \<and> length t = 11 \<and>
     experiment_print_error = Inr E \<and>
     E = sqrt (0.4 * (\<Sum>k = 0..10. (u_exact t (PyInt 1) (PyInt 2) ! k - u ! k) ^ 2)) \<and>
     0 < E"
proof -
  define u where "u = map (\<lambda>n. val (PyInt 1) * amplification 1 2 (2 / 5) ^ n) [0..<11]"
  define t where "t = map (\<lambda>k. real k * (2 / 5)) [0..<11]"
  define f where "f = (\<lambda>k. (u_exact t (PyInt 1) (PyInt 2) ! k - u ! k) ^ 2)"
  define E where "E = sqrt (2 / 5 * (\<Sum>k = 0..10. f k))"
  have i: "intervals (PyInt 4) (PyFloat (2 / 5)) = 10"
    by (simp add: intervals_def py_round_def)
  have s: "solver (PyInt 1) (PyInt 2) (PyInt 4) (PyFloat (2 / 5)) (PyInt 1) = Inr (u, t)"
    by (simp add: solver_eq i u_def t_def)
  have len: "length u = 11" "length t = 11" "length (u_exact t (PyInt 1) (PyInt 2)) = 11"
    by (simp_all add: u_def t_def u_exact_def)
  have "sum_list (map (\<lambda>e. e ^ 2) (map2 (\<lambda>x y. x - y) (u_exact t (PyInt 1) (PyInt 2)) u)) =
      (\<Sum>k<11. f k)"
    using sum_list_square_differences [of "u_exact t (PyInt 1) (PyInt 2)" u]
    by (simp add: len f_def)
  also have "{..<11::nat} = {0..10}" by auto
  finally have e: "experiment_print_error = Inr E"
    by (simp add: experiment_print_error_def s E_def)
  have f1: "0 < f 1"
  proof -
    have "u ! 1 = 5 / 9" by (simp add: u_def amplification_def)
    moreover have "u_exact t (PyInt 1) (PyInt 2) ! 1 = exp (- (4 / 5))"
      by (simp add: u_exact_def t_def)
    ultimately show ?thesis using exp_minus_four_fifths by (simp add: f_def)
  qed
  have "0 < (\<Sum>k = 0..10. f k)"
  proof (rule sum_pos2 [where i = 1])
    show "finite {0..10::nat}" by simp
    show "(1::nat) \<in> {0..10}" by simp
    show "0 < f 1" by (rule f1)
    show "\<And>k. k \<in> {0..10} \<Longrightarrow> 0 \<le> f k" by (simp add: f_def)
  qed
  then have pos: "0 < E" by (simp add: E_def)
  from s i len e pos show ?thesis
    by (simp add: E_def f_def)
qed




text \<open>
  Claim C10 (unguarded division). Let \<open>theta\<close> be in \<open>[0,1]\<close> and \<open>dt > 0\<close>. If
  \<open>a \<ge> 0\<close>, the denominator \<open>1 + theta a dt\<close> (in either order of the factors) is at
  least \<open>1\<close>, and neither solver nor \<^verbatim>\<open>u_discrete_exact\<close> (for \<open>n \<ge> 0\<close>) raises
  \<^verbatim>\<open>ZeroDivisionError\<close>. If \<open>theta a dt = -1\<close>, then \<open>a < 0\<close>, the denominator is zero,
  and the division is not guarded: \<^verbatim>\<open>u_discrete_exact\<close> raises
  \<^verbatim>\<open>ZeroDivisionError\<close>, and so does solver as soon as there is one interval.
\<close>

theorem division_by_zero_unreachable:
  assumes th: "0 \<le> val theta" "val theta \<le> 1" and dt: "0 < val dt"
  shows "(0 \<le> val a \<longrightarrow>
            1 \<le> val (solver_denominator theta a (py_float dt)) \<and>
            1 \<le> val (doctest_denominator theta a (py_float dt)) \<and>
            solver I a T dt theta \<noteq> Inl ZeroDivisionError \<and>
            (0 \<le> n \<longrightarrow> u_discrete_exact n I a theta dt \<noteq> Inl ZeroDivisionError)) \<and>
         (val theta * val a * val dt = - 1 \<longrightarrow>
            val a < 0 \<and>
            val (solver_denominator theta a (py_float dt)) = 0 \<and>
            val (doctest_denominator theta a (py_float dt)) = 0 \<and>
            (1 \<le> intervals T dt \<longrightarrow> solver I a T dt theta = Inl ZeroDivisionError) \<and>
            u_discrete_exact n I a theta dt = Inl ZeroDivisionError)"
proof (intro conjI impI)
  assume a: "0 \<le> val a"
  have "0 \<le> val theta * val a * val dt"
    using th(1) a dt by simp
  then have den: "1 \<le> 1 + val theta * val a * val dt" by simp
  then have nz: "1 + val theta * val a * val dt \<noteq> 0" by simp
  show "1 \<le> val (solver_denominator theta a (py_float dt))"
    using den by (simp add: val_solver_denominator)
  show "1 \<le> val (doctest_denominator theta a (py_float dt))"
    using den by (simp add: val_doctest_denominator)
  have "val dt \<noteq> 0" using dt by simp
  then show "solver I a T dt theta \<noteq> Inl ZeroDivisionError"
    using nz by (simp add: solver_eq)
  show "u_discrete_exact n I a theta dt \<noteq> Inl ZeroDivisionError" if "0 \<le> n"
    using nz that by (simp add: u_discrete_exact_eq)
next
  assume m: "val theta * val a * val dt = - 1"
  show "val a < 0"
  proof (rule ccontr)
    assume "\<not> val a < 0"
    then have "0 \<le> val theta * val a * val dt" using th(1) dt by simp
    with m show False by simp
  qed
  from m have z: "1 + val theta * val a * val dt = 0" by simp
  show "val (solver_denominator theta a (py_float dt)) = 0"
    using z by (simp add: val_solver_denominator)
  show "val (doctest_denominator theta a (py_float dt)) = 0"
    using z by (simp add: val_doctest_denominator)
  have nz: "val dt \<noteq> 0" using dt by simp
  show "solver I a T dt theta = Inl ZeroDivisionError" if "1 \<le> intervals T dt"
    using z that by (simp add: solver_eq [OF nz])
  show "u_discrete_exact n I a theta dt = Inl ZeroDivisionError"
    using z by (simp add: u_discrete_exact_eq)
qed

theorem division_by_zero_unreachable_witness:
  "0 \<le> val (PyFloat (1 / 2)) \<and> val (PyFloat (1 / 2)) \<le> 1 \<and> 0 < val (PyFloat (1 / 4)) \<and>
   0 \<le> val (PyInt 3) \<and>
   1 \<le> val (solver_denominator (PyFloat (1 / 2)) (PyInt 3) (py_float (PyFloat (1 / 4)))) \<and>
   solver (PyInt 1) (PyInt 3) (PyInt 1) (PyFloat (1 / 4)) (PyFloat (1 / 2)) \<noteq> Inl ZeroDivisionError \<and>
   (0::int) \<le> 2 \<and>
   u_discrete_exact 2 (PyInt 1) (PyInt 3) (PyFloat (1 / 2)) (PyFloat (1 / 4)) \<noteq> Inl ZeroDivisionError \<and>
   val (PyFloat (1 / 2)) * val (PyInt (- 8)) * val (PyFloat (1 / 4)) = - 1 \<and>
   val (PyInt (- 8)) < 0 \<and>
   1 \<le> intervals (PyInt 1) (PyFloat (1 / 4)) \<and>
   solver (PyInt 1) (PyInt (- 8)) (PyInt 1) (PyFloat (1 / 4)) (PyFloat (1 / 2)) = Inl ZeroDivisionError \<and>
   u_discrete_exact 2 (PyInt 1) (PyInt (- 8)) (PyFloat (1 / 2)) (PyFloat (1 / 4)) = Inl ZeroDivisionError"
proof -
  have h1: "0 \<le> val (PyFloat (1 / 2))" and h2: "val (PyFloat (1 / 2)) \<le> 1"
    and h3: "0 < val (PyFloat (1 / 4))" by simp_all
  have a1: "0 \<le> val (PyInt 3)" and n: "(0::int) \<le> 2" by simp_all
  have a2: "val (PyFloat (1 / 2)) * val (PyInt (- 8)) * val (PyFloat (1 / 4)) = - 1" by simp
  have i: "1 \<le> intervals (PyInt 1) (PyFloat (1 / 4))"
    by (simp add: intervals_def py_round_def)
  from division_by_zero_unreachable [OF h1 h2 h3, of "PyInt 3" "PyInt 1" "PyInt 1" 2]
    division_by_zero_unreachable [OF h1 h2 h3, of "PyInt (- 8)" "PyInt 1" "PyInt 1" 2]
    h1 h2 h3 a1 n a2 i
  show ?thesis by simp
qed

end
